theory Spec2Isabelle
  imports Complex_Main
begin

section \<open>Python values shared by the modules\<close>

text \<open>
  The exceptions of the Python source that a modelled function lets escape to its caller.
  Exceptions that the source catches itself are branches of the function that catches them.
\<close>

datatype py_error = IndexError | ValueError

text \<open>
  Python's \<^verbatim>\<open>xs[:n]\<close> for an arbitrary integer \<open>n\<close>: a negative bound counts from the end.
\<close>

definition py_take :: "int \<Rightarrow> 'a list \<Rightarrow> 'a list" where
  "py_take n xs = (if 0 \<le> n then take (nat n) xs else take (length xs - nat (- n)) xs)"

text \<open>
  Python's \<^verbatim>\<open>int(x)\<close> on a float truncates toward zero.
\<close>

definition py_int :: "real \<Rightarrow> int" where
  "py_int x = (if 0 \<le> x then \<lfloor>x\<rfloor> else \<lceil>x\<rceil>)"

section \<open>video\_history.py: the upload ledger\<close>

text \<open>
  A \<^verbatim>\<open>video_data\<close> dictionary as \<^verbatim>\<open>mark_video_uploaded\<close> reads it. The key
  \<^verbatim>\<open>'id'\<close> is read with \<^verbatim>\<open>video_data['id']\<close> (a missing key raises), the others with
  \<^verbatim>\<open>.get(key, default)\<close>, so each field is optional here and the default is applied where
  the source applies it.
\<close>

record video_data =
  vd_id :: "string option"
  vd_caption :: "string option"
  vd_views :: "int option"
  vd_likes :: "int option"
  vd_comments :: "int option"
  vd_shares :: "int option"

record metrics =
  m_views :: int
  m_likes :: int
  m_comments :: int
  m_shares :: int

record history_entry =
  video_id :: string
  title :: string
  upload_date :: string
  youtube_id :: "string option"
  entry_metrics :: metrics

text \<open>
  \<^verbatim>\<open>self.history\<close>: a dictionary from channel name to the list of its entries.
\<close>

type_synonym history = "string \<rightharpoonup> history_entry list"

text \<open>
  Every public method starts with
  \<^verbatim>\<open>if username.startswith('@'): username = username[1:]\<close>.
\<close>

fun clean_username :: "string \<Rightarrow> string" where
  "clean_username [] = []"
| "clean_username (c # cs) = (if c = CHR ''@'' then cs else c # cs)"

definition is_video_uploaded :: "string \<Rightarrow> string \<Rightarrow> history \<Rightarrow> bool" where
  "is_video_uploaded username vid h =
     (case h (clean_username username) of
        None \<Rightarrow> False
      | Some vs \<Rightarrow> list_ex (\<lambda>v. video_id v = vid) vs)"

text \<open>
  \<^verbatim>\<open>mark_video_uploaded\<close>. \<open>disk_ok\<close> is the outcome of \<^verbatim>\<open>_save_history\<close> (whether the
  file could be written), which is the value the method returns; \<open>now\<close> is
  \<^verbatim>\<open>datetime.now().isoformat()\<close>. The channel list is created before the entry is built, so
  a \<^verbatim>\<open>KeyError\<close> on \<^verbatim>\<open>video_data['id']\<close> (caught, result \<^verbatim>\<open>False\<close>) leaves the empty list
  behind. There is no membership test before the append.
\<close>

definition mark_video_uploaded ::
  "bool \<Rightarrow> string \<Rightarrow> string \<Rightarrow> video_data \<Rightarrow> string option \<Rightarrow> history \<Rightarrow> bool \<times> history" where
  "mark_video_uploaded disk_ok now username vd yt h =
     (let u = clean_username username;
          h1 = (case h u of None \<Rightarrow> h(u \<mapsto> []) | Some _ \<Rightarrow> h)
      in case vd_id vd of
           None \<Rightarrow> (False, h1)
         | Some i \<Rightarrow>
             (disk_ok,
              h1(u \<mapsto> (case h1 u of None \<Rightarrow> [] | Some vs \<Rightarrow> vs) @
                [\<lparr>video_id = i,
                  title = take 100 (case vd_caption vd of None \<Rightarrow> [] | Some c \<Rightarrow> c),
                  upload_date = now,
                  youtube_id = yt,
                  entry_metrics =
                    \<lparr>m_views = (case vd_views vd of None \<Rightarrow> 0 | Some n \<Rightarrow> n),
                     m_likes = (case vd_likes vd of None \<Rightarrow> 0 | Some n \<Rightarrow> n),
                     m_comments = (case vd_comments vd of None \<Rightarrow> 0 | Some n \<Rightarrow> n),
                     m_shares = (case vd_shares vd of None \<Rightarrow> 0 | Some n \<Rightarrow> n)\<rparr>\<rparr>])))"

definition get_channel_history :: "string \<Rightarrow> history \<Rightarrow> history_entry list" where
  "get_channel_history username h =
     (case h (clean_username username) of None \<Rightarrow> [] | Some vs \<Rightarrow> vs)"

definition get_upload_count :: "string \<Rightarrow> history \<Rightarrow> nat" where
  "get_upload_count username h =
     length (case h (clean_username username) of None \<Rightarrow> [] | Some vs \<Rightarrow> vs)"

section \<open>content\_analyzer.py: scoring, admission floor, selection\<close>

text \<open>
  The value stored under a key of a scraped video dictionary: the key is missing, or it
  holds a value that \<^verbatim>\<open>int(...)\<close> (for \<^verbatim>\<open>duration\<close>: \<^verbatim>\<open>float(...)\<close>) converts, written
  here as the result of the conversion, or it holds something the conversion raises on.
\<close>

datatype 'a field = Missing | Val 'a | Malformed

text \<open>
  \<^verbatim>\<open>int(d.get(key, 0))\<close> and \<^verbatim>\<open>float(d.get(key, 0))\<close>: the default \<open>0\<close> for a missing key,
  \<open>None\<close> when the conversion raises.
\<close>

fun convert :: "'a::zero field \<Rightarrow> 'a option" where
  "convert Missing = Some 0"
| "convert (Val x) = Some x"
| "convert Malformed = None"

record video =
  desc :: string
  createTime :: "int field"
  duration :: "real field"
  playCount :: "int field"
  diggCount :: "int field"
  commentCount :: "int field"
  shareCount :: "int field"

text \<open>
  \<^verbatim>\<open>config.CONTENT_FILTERS\<close>, as far as the analyzer reads it. Every read is a
  \<^verbatim>\<open>self.filters.get(key, default)\<close>, so a key may be missing.
\<close>

record content_filters =
  min_duration :: "real option"
  max_duration :: "real option"
  min_views :: "int option"
  min_engagement_rate :: "real option"
  exclude_hashtags :: "string list option"

definition CONTENT_FILTERS :: content_filters where
  "CONTENT_FILTERS =
     \<lparr>min_duration = Some 3, max_duration = Some 60, min_views = Some 1000,
      min_engagement_rate = Some 0.5,
      exclude_hashtags = Some [''#ad'', ''#sponsored'', ''#promotion'']\<rparr>"

text \<open>
  The first four statements of \<^verbatim>\<open>calculate_engagement_score\<close>: views, likes, comments and
  shares, converted in this order; \<open>None\<close> when one of the conversions raises.
\<close>

definition counters :: "video \<Rightarrow> (int \<times> int \<times> int \<times> int) option" where
  "counters v =
     (case convert (playCount v) of
        None \<Rightarrow> None
      | Some views \<Rightarrow>
          (case convert (diggCount v) of
             None \<Rightarrow> None
           | Some likes \<Rightarrow>
               (case convert (commentCount v) of
                  None \<Rightarrow> None
                | Some comments \<Rightarrow>
                    (case convert (shareCount v) of
                       None \<Rightarrow> None
                     | Some shares \<Rightarrow> Some (views, likes, comments, shares)))))"

text \<open>
  \<^verbatim>\<open>calculate_engagement_score\<close>. The floating-point arithmetic of the source is modelled
  in the real numbers. \<open>rnd\<close> is the value \<^verbatim>\<open>random.uniform(0.1, 1.0)\<close> returns if it is
  called. The outer \<^verbatim>\<open>except\<close> turns every exception into the score \<open>0.5\<close>: a counter
  that does not convert, and \<^verbatim>\<open>math.log10\<close> of a non-positive number (views below
  zero).
\<close>

definition calculate_engagement_score :: "real \<Rightarrow> video \<Rightarrow> real" where
  "calculate_engagement_score rnd v =
     (case counters v of
        None \<Rightarrow> 0.5
      | Some (views, likes, comments, shares) \<Rightarrow>
          if views = 0 \<and> likes = 0 \<and> comments = 0 \<and> shares = 0 then
            (case convert (createTime v) of
               Some create_time \<Rightarrow> min 5 (max 0 (real_of_int create_time / 1000000000))
             | None \<Rightarrow> rnd)
          else if views = 0 then 0
          else if views + 1 \<le> 0 then 0.5
          else
            (let engagement_rate = real_of_int (likes + comments + shares) / real_of_int views;
                 log_views = log 10 (real_of_int (views + 1))
             in 0.4 * log_views + 0.6 * engagement_rate * 10))"

datatype channel_size = Small | Medium | Large

fun min_bound :: "channel_size \<Rightarrow> int" where
  "min_bound Small = 3000"
| "min_bound Medium = 8000"
| "min_bound Large = 15000"

text \<open>
  \<^verbatim>\<open>[int(video.get('stats', {}).get('playCount', 0)) for video in videos]\<close>: \<open>None\<close> when
  one conversion raises.
\<close>

fun view_counts_of :: "video list \<Rightarrow> int list option" where
  "view_counts_of [] = Some []"
| "view_counts_of (v # vs) =
     (case convert (playCount v) of
        None \<Rightarrow> None
      | Some n \<Rightarrow> (case view_counts_of vs of None \<Rightarrow> None | Some ns \<Rightarrow> Some (n # ns)))"

text \<open>
  \<^verbatim>\<open>calculate_dynamic_view_threshold\<close>. The source returns the threshold and writes the
  channel size to the log; the model returns both, with no channel size on the paths that
  return the configured default before a size is computed. The indices
  \<^verbatim>\<open>len // 2\<close> and \<^verbatim>\<open>int(len * 0.75)\<close> are in range for a non-empty list.
\<close>

definition default_min_views :: "content_filters \<Rightarrow> int" where
  "default_min_views flt = (case min_views flt of None \<Rightarrow> 10000 | Some n \<Rightarrow> n)"

definition calculate_dynamic_view_threshold ::
  "content_filters \<Rightarrow> video list \<Rightarrow> channel_size option \<times> int" where
  "calculate_dynamic_view_threshold flt videos =
     (if videos = [] then (None, default_min_views flt)
      else case view_counts_of videos of
        None \<Rightarrow> (None, default_min_views flt)
      | Some all_counts \<Rightarrow>
          (let view_counts = sort (filter (\<lambda>views. 0 < views) all_counts) in
           if view_counts = [] then (None, default_min_views flt)
           else
             (let avg_views = real_of_int (sum_list view_counts) / real (length view_counts);
                  median_views = view_counts ! (length view_counts div 2);
                  percentile_75 = view_counts ! ((length view_counts * 3) div 4);
                  channel_size = (if avg_views < 20000 then Small
                                  else if avg_views < 100000 then Medium else Large);
                  dynamic_threshold =
                    (case channel_size of
                       Small \<Rightarrow> py_int (avg_views * 0.7)
                     | Medium \<Rightarrow> py_int (real_of_int median_views * 0.8)
                     | Large \<Rightarrow> py_int (real_of_int percentile_75 * 0.7));
                  max_bound = 500000
              in (Some channel_size,
                  max (min_bound channel_size) (min dynamic_threshold max_bound)))))"






text \<open>
  Decimal digits of a number, for the f-strings \<^verbatim>\<open>f"Rank {i+1} of {n} videos"\<close> and
  \<^verbatim>\<open>f"Video {i+1}"\<close>.
\<close>

fun string_of_nat :: "nat \<Rightarrow> string" where
  "string_of_nat n =
     (if n < 10 then [''0123456789'' ! n]
      else string_of_nat (n div 10) @ [''0123456789'' ! (n mod 10)])"

declare string_of_nat.simps [simp del]








section \<open>youtube\_uploader.py: the daily quota and the batch upload\<close>

text \<open>
  The quota file \<^verbatim>\<open>youtube_api_quota.json\<close>: a dictionary from the date string to the
  day's entry. Every entry the source writes has \<^verbatim>\<open>used\<close>, \<^verbatim>\<open>remaining\<close> and
  \<^verbatim>\<open>last_updated\<close>; the entry that \<^verbatim>\<open>upload_video\<close> creates on a \<^verbatim>\<open>quotaExceeded\<close>
  response for a day without entry has no \<^verbatim>\<open>operations\<close> key, so that field is optional.
  The model reads and writes the file's content as one value; \<open>disk_ok\<close> below says
  whether \<^verbatim>\<open>_save_quota_usage\<close> can write it.
\<close>

record op_stat =
  op_count :: int
  op_cost :: int

record day_entry =
  used :: int
  remaining :: int
  last_updated :: string
  operations :: "(string \<rightharpoonup> op_stat) option"
  quota_exceeded :: bool

type_synonym quota_data = "string \<rightharpoonup> day_entry"

definition QUOTA_COSTS :: "(string \<times> int) list" where
  "QUOTA_COSTS =
     [(''videos.insert'', 1600), (''videos.list'', 1), (''videos.update'', 50),
      (''playlistItems.insert'', 50), (''channels.list'', 1)]"

text \<open>\<^verbatim>\<open>QUOTA_COSTS.get(operation, 1)\<close>\<close>

definition cost_per_op :: "string \<Rightarrow> int" where
  "cost_per_op operation = (case map_of QUOTA_COSTS operation of None \<Rightarrow> 1 | Some c \<Rightarrow> c)"

definition daily_quota_limit :: int where
  "daily_quota_limit = 10000"

text \<open>
  \<^verbatim>\<open>self.daily_quota_limit * 0.05\<close>, a float in the source (the product is exactly 500.0).
\<close>

definition reserve_quota :: real where
  "reserve_quota = real_of_int daily_quota_limit * 0.05"

text \<open>
  \<^verbatim>\<open>quota_data.get(today, {}).get("used", 0)\<close>
\<close>

definition used_quota :: "string \<Rightarrow> quota_data \<Rightarrow> int" where
  "used_quota today q = (case q today of None \<Rightarrow> 0 | Some e \<Rightarrow> used e)"

text \<open>
  \<^verbatim>\<open>_save_quota_usage\<close>: the file holds the new data if it could be written.
\<close>

definition save_quota_usage :: "bool \<Rightarrow> quota_data \<Rightarrow> quota_data \<Rightarrow> quota_data" where
  "save_quota_usage disk_ok new_data file = (if disk_ok then new_data else file)"

text \<open>
  \<^verbatim>\<open>track_api_usage\<close>. \<open>today\<close> and \<open>timestamp\<close> are the two readings of the clock. An
  entry of today without \<^verbatim>\<open>operations\<close> raises \<^verbatim>\<open>KeyError\<close> after the counters were
  updated in memory and before the file is written: the method returns \<^verbatim>\<open>False\<close> and the
  file is unchanged. The result of the save is ignored.
\<close>

definition track_api_usage ::
  "bool \<Rightarrow> string \<Rightarrow> string \<Rightarrow> string \<Rightarrow> int \<Rightarrow> quota_data \<Rightarrow> bool \<times> quota_data" where
  "track_api_usage disk_ok today timestamp operation count q =
     (let total_cost = cost_per_op operation * count;
          e0 = (case q today of
                  None \<Rightarrow> \<lparr>used = 0, remaining = daily_quota_limit, last_updated = timestamp,
                            operations = Some Map.empty, quota_exceeded = False\<rparr>
                | Some e \<Rightarrow> e);
          e1 = e0\<lparr>used := used e0 + total_cost\<rparr>;
          e2 = e1\<lparr>remaining := max 0 (daily_quota_limit - used e1), last_updated := timestamp\<rparr>
      in case operations e2 of
           None \<Rightarrow> (False, q)
         | Some ops \<Rightarrow>
             (let stat = (case ops operation of
                            None \<Rightarrow> \<lparr>op_count = 0, op_cost = 0\<rparr>
                          | Some s \<Rightarrow> s);
                  ops' = ops(operation \<mapsto>
                           \<lparr>op_count = op_count stat + count, op_cost = op_cost stat + total_cost\<rparr>)
              in (True, save_quota_usage disk_ok (q(today \<mapsto> e2\<lparr>operations := Some ops'\<rparr>)) q)))"

text \<open>
  \<^verbatim>\<open>check_quota_available\<close>. For \<^verbatim>\<open>videos.insert\<close> a request that does not fit is still
  granted when at least one upload fits.
\<close>

definition check_quota_available :: "string \<Rightarrow> string \<Rightarrow> int \<Rightarrow> quota_data \<Rightarrow> bool" where
  "check_quota_available today operation count q =
     (let total_cost = cost_per_op operation * count;
          remaining_quota = daily_quota_limit - used_quota today q
      in if operation = ''videos.insert'' then
           (let effective_remaining = real_of_int remaining_quota - reserve_quota in
            if real_of_int total_cost > effective_remaining then
              (let possible_uploads =
                     py_int (effective_remaining / real_of_int (cost_per_op operation))
               in if possible_uploads > 0 then True else False)
            else True)
         else if total_cost > remaining_quota then False
         else True)"

text \<open>
  The shape of the quota file that \<^verbatim>\<open>track_api_usage\<close> needs and keeps: today's entry,
  if there is one, has the \<^verbatim>\<open>operations\<close> key.
\<close>

definition has_operations :: "string \<Rightarrow> quota_data \<Rightarrow> bool" where
  "has_operations day q = (case q day of None \<Rightarrow> True | Some e \<Rightarrow> operations e \<noteq> None)"

text \<open>
  What happens once \<^verbatim>\<open>upload_video\<close> has passed its two checks, from
  \<^verbatim>\<open>prepare_metadata\<close> to the answer of \<^verbatim>\<open>_execute_upload_request\<close>: the external
  service returns a video id, or the request ends in an \<^verbatim>\<open>HttpError\<close> with reason
  \<^verbatim>\<open>quotaExceeded\<close>, or it fails in another way (no id, another \<^verbatim>\<open>HttpError\<close>, any other
  exception, all of which make \<^verbatim>\<open>upload_video\<close> return \<^verbatim>\<open>None\<close> with the quota file
  untouched).
\<close>

datatype upload_outcome = VideoId string | QuotaExceededError | UploadFailure

text \<open>
  The surroundings of one batch: whether \<^verbatim>\<open>self.api\<close> is set, what the external service
  answers to the upload at each position of the batch, whether the quota file can be
  written, and the clock (one day for the whole batch).
\<close>

record env =
  api_available :: bool
  publisher :: "nat \<Rightarrow> upload_outcome"
  disk_ok :: bool
  today :: string
  timestamp :: string

text \<open>
  \<^verbatim>\<open>config.YOUTUBE_DEFAULTS\<close> has no key \<^verbatim>\<open>shorts_playlist_id\<close>.
\<close>

definition shorts_playlist_id :: "string option" where
  "shorts_playlist_id = None"

text \<open>
  The \<^verbatim>\<open>quotaExceeded\<close> handler of \<^verbatim>\<open>upload_video\<close>: today's counters are forced to the
  limit.
\<close>

definition force_quota_exceeded :: "env \<Rightarrow> quota_data \<Rightarrow> quota_data" where
  "force_quota_exceeded ev q =
     (let e0 = (case q (today ev) of
                  None \<Rightarrow> \<lparr>used = 0, remaining = 0, last_updated = [], operations = None,
                            quota_exceeded = False\<rparr>
                | Some e \<Rightarrow> e)
      in save_quota_usage (disk_ok ev)
           (q(today ev \<mapsto> e0\<lparr>used := daily_quota_limit, remaining := 0,
                               last_updated := timestamp ev, quota_exceeded := True\<rparr>)) q)"

text \<open>
  \<^verbatim>\<open>upload_video\<close> for the video at position \<open>i\<close> of the batch: the id if the upload
  succeeded, and the quota file afterwards. \<^verbatim>\<open>_add_to_playlist\<close> catches its own errors
  and its result is ignored, so the playlist branch is the quota check and the tracking.
\<close>

definition upload_video :: "env \<Rightarrow> nat \<Rightarrow> quota_data \<Rightarrow> string option \<times> quota_data" where
  "upload_video ev i q =
     (if \<not> api_available ev then (None, q)
      else if \<not> check_quota_available (today ev) ''videos.insert'' 1 q then (None, q)
      else case publisher ev i of
        UploadFailure \<Rightarrow> (None, q)
      | QuotaExceededError \<Rightarrow> (None, force_quota_exceeded ev q)
      | VideoId vid \<Rightarrow>
          if vid = [] then (None, q)
          else
            (let q1 = snd (track_api_usage (disk_ok ev) (today ev) (timestamp ev)
                             ''videos.insert'' 1 q);
                 q2 = (case shorts_playlist_id of
                         None \<Rightarrow> q1
                       | Some pid \<Rightarrow>
                           if pid = [] then q1
                           else if check_quota_available (today ev) ''playlistItems.insert'' 1 q1
                           then snd (track_api_usage (disk_ok ev) (today ev) (timestamp ev)
                                       ''playlistItems.insert'' 1 q1)
                           else q1)
             in (Some vid, q2)))"

record successful_upload =
  s_file :: string
  s_video_id :: string
  s_title :: string

record failed_upload =
  f_file :: string
  f_title :: string
  f_error :: string

record results =
  successful :: "successful_upload list"
  failed :: "failed_upload list"

text \<open>
  \<^verbatim>\<open>video_data.get('caption', f"Video {i+1}")\<close>
\<close>

definition title_of :: "video_data \<Rightarrow> nat \<Rightarrow> string" where
  "title_of vd i = (case vd_caption vd of None \<Rightarrow> ''Video '' @ string_of_nat (i + 1) | Some c \<Rightarrow> c)"

text \<open>
  The loop that marks the whole batch as failed when no upload is affordable
  (\<^verbatim>\<open>for i, video_data in enumerate(video_data_list)\<close>, with \<^verbatim>\<open>video_files[i]\<close>).
\<close>

fun mark_all_failed ::
  "string list \<Rightarrow> nat \<Rightarrow> video_data list \<Rightarrow> failed_upload list \<Rightarrow> py_error + failed_upload list" where
  "mark_all_failed video_files i [] acc = Inr acc"
| "mark_all_failed video_files i (vd # vds) acc =
     (if i < length video_files
      then mark_all_failed video_files (Suc i) vds
             (acc @ [\<lparr>f_file = video_files ! i, f_title = title_of vd i,
                       f_error = ''Quota exceeded''\<rparr>])
      else Inl IndexError)"

text \<open>
  The loop \<^verbatim>\<open>for i in range(possible_uploads, total_uploads)\<close> that marks the videos
  beyond the affordable prefix. It runs after both lists were cut to
  \<open>possible_uploads\<close> elements and reads \<^verbatim>\<open>video_data_list[i]\<close> and \<^verbatim>\<open>video_files[i]\<close>
  from the cut lists; an index out of range raises.
\<close>

fun mark_remaining ::
  "string list \<Rightarrow> video_data list \<Rightarrow> nat list \<Rightarrow> failed_upload list \<Rightarrow>
   py_error + failed_upload list" where
  "mark_remaining video_files video_data_list [] acc = Inr acc"
| "mark_remaining video_files video_data_list (i # is) acc =
     (if i < length video_data_list \<and> i < length video_files
      then mark_remaining video_files video_data_list is
             (acc @ [\<lparr>f_file = video_files ! i, f_title = title_of (video_data_list ! i) i,
                       f_error = ''Quota exceeded''\<rparr>])
      else Inl IndexError)"

text \<open>
  The upload loop \<^verbatim>\<open>for i, (video_file, video_data) in enumerate(zip(...))\<close>.
\<close>

fun upload_loop ::
  "env \<Rightarrow> nat \<Rightarrow> (string \<times> video_data) list \<Rightarrow> results \<Rightarrow> quota_data \<Rightarrow> results \<times> quota_data" where
  "upload_loop ev i [] res q = (res, q)"
| "upload_loop ev i ((video_file, vd) # rest) res q =
     (case upload_video ev i q of
        (Some vid, q') \<Rightarrow>
          upload_loop ev (Suc i) rest
            (res\<lparr>successful := successful res @
                   [\<lparr>s_file = video_file, s_video_id = vid, s_title = title_of vd i\<rparr>]\<rparr>) q'
      | (None, q') \<Rightarrow>
          upload_loop ev (Suc i) rest
            (res\<lparr>failed := failed res @
                   [\<lparr>f_file = video_file, f_title = title_of vd i,
                     f_error = ''Upload failed''\<rparr>]\<rparr>) q')"

text \<open>
  \<^verbatim>\<open>_upload_immediately\<close>: the results and the quota file afterwards, or the exception
  that escapes (the method has no \<^verbatim>\<open>try\<close>; the only one that can escape is raised
  before any upload, with the quota file untouched).
\<close>

definition upload_immediately ::
  "env \<Rightarrow> quota_data \<Rightarrow> string list \<Rightarrow> video_data list \<Rightarrow> py_error + (results \<times> quota_data)" where
  "upload_immediately ev q video_files video_data_list =
     (let results0 = \<lparr>successful = [], failed = []\<rparr>;
          total_uploads = length video_files
      in if length video_files \<noteq> length video_data_list then Inr (results0, q)
         else if \<not> check_quota_available (today ev) ''videos.insert'' (int total_uploads) q then
           (let remaining_quota = daily_quota_limit - used_quota (today ev) q;
                effective_remaining = real_of_int remaining_quota - reserve_quota;
                cost_per_upload = cost_per_op ''videos.insert'';
                possible_uploads = py_int (effective_remaining / real_of_int cost_per_upload)
            in if possible_uploads \<le> 0 then
                 (case mark_all_failed video_files 0 video_data_list [] of
                    Inl e \<Rightarrow> Inl e
                  | Inr fs \<Rightarrow> Inr (results0\<lparr>failed := fs\<rparr>, q))
               else
                 (let video_files' = py_take possible_uploads video_files;
                      video_data_list' = py_take possible_uploads video_data_list
                  in case mark_remaining video_files' video_data_list'
                            [nat possible_uploads ..< total_uploads] [] of
                       Inl e \<Rightarrow> Inl e
                     | Inr fs \<Rightarrow>
                         Inr (upload_loop ev 0 (zip video_files' video_data_list')
                                (results0\<lparr>failed := fs\<rparr>) q)))
         else Inr (upload_loop ev 0 (zip video_files video_data_list) results0 q))"

text \<open>
  Step 6 of \<^verbatim>\<open>process_channels\<close> in main.py writes one ledger record for every element
  of \<^verbatim>\<open>successful\<close>. The method it calls, \<^verbatim>\<open>record_uploaded_video\<close>, is not part of
  the sources and is a parameter here.
\<close>

definition record_upload_results ::
  "(successful_upload \<Rightarrow> 'ledger \<Rightarrow> 'ledger) \<Rightarrow> results \<Rightarrow> 'ledger \<Rightarrow> 'ledger" where
  "record_upload_results record_uploaded_video res ledger =
     fold record_uploaded_video (successful res) ledger"

section \<open>The ledger: recording twice, and the leading @\<close>

lemma clean_username_plain: "take 1 u \<noteq> ''@'' \<Longrightarrow> clean_username u = u"
  by (cases u) auto

text \<open>
  C1 (as amended). \<^verbatim>\<open>mark_video_uploaded\<close> has no duplicate check and no duplicate error:
  for a video with an id, recording the same channel and id twice returns the outcome of
  the save both times and appends two entries, so the channel's count grows by 2. The
  first recording makes \<^verbatim>\<open>is_video_uploaded\<close> true, which is how a caller can skip the
  second one.
\<close>

theorem mark_twice_appends_twice:
  assumes "vd_id vd = Some i"
  shows "fst (mark_video_uploaded d1 n1 u vd y1 h) = d1 \<and>
         fst (mark_video_uploaded d2 n2 u vd y2 (snd (mark_video_uploaded d1 n1 u vd y1 h))) = d2 \<and>
         is_video_uploaded u i (snd (mark_video_uploaded d1 n1 u vd y1 h)) \<and>
         get_upload_count u
           (snd (mark_video_uploaded d2 n2 u vd y2 (snd (mark_video_uploaded d1 n1 u vd y1 h)))) =
         get_upload_count u h + 2"
  using assms
  by (auto simp: mark_video_uploaded_def is_video_uploaded_def get_upload_count_def Let_def
           split: option.splits)

theorem mark_twice_witness:
  "vd_id \<lparr>vd_id = Some ''v1'', vd_caption = None, vd_views = None, vd_likes = None,
          vd_comments = None, vd_shares = None\<rparr> = Some ''v1'' \<and>
   get_upload_count ''chan''
     (snd (mark_video_uploaded True ''t2'' ''chan''
        \<lparr>vd_id = Some ''v1'', vd_caption = None, vd_views = None, vd_likes = None,
          vd_comments = None, vd_shares = None\<rparr> None
        (snd (mark_video_uploaded True ''t1'' ''chan''
           \<lparr>vd_id = Some ''v1'', vd_caption = None, vd_views = None, vd_likes = None,
             vd_comments = None, vd_shares = None\<rparr> None Map.empty)))) = 2"
  using mark_twice_appends_twice
    [of "\<lparr>vd_id = Some ''v1'', vd_caption = None, vd_views = None, vd_likes = None,
          vd_comments = None, vd_shares = None\<rparr>" "''v1''" True "''t1''" "''chan''" None
        Map.empty True "''t2''" None]
  by (simp add: get_upload_count_def)

text \<open>
  The claim as stated fails on an empty ledger: the second recording of video \<open>v1\<close> for
  channel \<open>chan\<close> returns \<^verbatim>\<open>True\<close> like the first, and the count goes from 0 to 2.
\<close>

theorem record_twice_counterexample:
  "fst (mark_video_uploaded True ''t2'' ''chan''
        \<lparr>vd_id = Some ''v1'', vd_caption = None, vd_views = None, vd_likes = None,
          vd_comments = None, vd_shares = None\<rparr> None
        (snd (mark_video_uploaded True ''t1'' ''chan''
           \<lparr>vd_id = Some ''v1'', vd_caption = None, vd_views = None, vd_likes = None,
             vd_comments = None, vd_shares = None\<rparr> None Map.empty))) = True \<and>
   get_upload_count ''chan'' Map.empty = 0 \<and>
   get_upload_count ''chan''
     (snd (mark_video_uploaded True ''t2'' ''chan''
        \<lparr>vd_id = Some ''v1'', vd_caption = None, vd_views = None, vd_likes = None,
          vd_comments = None, vd_shares = None\<rparr> None
        (snd (mark_video_uploaded True ''t1'' ''chan''
           \<lparr>vd_id = Some ''v1'', vd_caption = None, vd_views = None, vd_likes = None,
             vd_comments = None, vd_shares = None\<rparr> None Map.empty)))) = 2"
  by (simp add: mark_video_uploaded_def get_upload_count_def Let_def)

text \<open>
  C10 (as amended). For a username \<open>u\<close> that does not itself begin with \<open>@\<close>, the
  membership test, the recording, the channel history and the upload count give the same
  result (and the same new ledger) for \<open>@u\<close> as for \<open>u\<close>; an entry recorded under \<open>@u\<close>
  is reported as uploaded under \<open>u\<close>.
\<close>

theorem at_prefix_same_channel:
  assumes "take 1 u \<noteq> ''@''" and "vd_id vd = Some i"
  shows "is_video_uploaded (CHR ''@'' # u) vid h = is_video_uploaded u vid h \<and>
         mark_video_uploaded d n (CHR ''@'' # u) vd y h = mark_video_uploaded d n u vd y h \<and>
         get_channel_history (CHR ''@'' # u) h = get_channel_history u h \<and>
         get_upload_count (CHR ''@'' # u) h = get_upload_count u h \<and>
         is_video_uploaded u i (snd (mark_video_uploaded d n (CHR ''@'' # u) vd y h))"
  using assms clean_username_plain [of u]
  by (auto simp: mark_video_uploaded_def is_video_uploaded_def get_upload_count_def
        get_channel_history_def Let_def split: option.splits)

theorem at_prefix_witness:
  "take 1 ''bob'' \<noteq> ''@'' \<and>
   is_video_uploaded ''bob'' ''v1''
       (snd (mark_video_uploaded True ''t1'' ''@bob''
          \<lparr>vd_id = Some ''v1'', vd_caption = None, vd_views = None, vd_likes = None,
            vd_comments = None, vd_shares = None\<rparr> None Map.empty))"
proof -
  have a: "take 1 ''bob'' \<noteq> ''@''" by simp
  have b: "vd_id \<lparr>vd_id = Some ''v1'', vd_caption = None, vd_views = None, vd_likes = None,
            vd_comments = None, vd_shares = None\<rparr> = Some ''v1''" by simp
  from at_prefix_same_channel [OF a b, of "''v1''" Map.empty True "''t1''" None]
  show ?thesis using a by blast
qed

text \<open>
  The claim as stated fails for a username that begins with \<open>@\<close>, since only one \<open>@\<close> is
  removed: with \<open>u = @bob\<close>, an entry recorded under \<open>@@bob\<close> is stored under the key
  \<open>@bob\<close>, while a query under \<open>@bob\<close> reads the key \<open>bob\<close>.
\<close>

theorem at_prefix_counterexample:
  "\<not> is_video_uploaded ''@bob'' ''v1''
       (snd (mark_video_uploaded True ''t1'' (CHR ''@'' # ''@bob'')
          \<lparr>vd_id = Some ''v1'', vd_caption = None, vd_views = None, vd_likes = None,
            vd_comments = None, vd_shares = None\<rparr> None Map.empty)) \<and>
   get_upload_count (CHR ''@'' # ''@bob'')
       (snd (mark_video_uploaded True ''t1'' (CHR ''@'' # ''@bob'')
          \<lparr>vd_id = Some ''v1'', vd_caption = None, vd_views = None, vd_likes = None,
            vd_comments = None, vd_shares = None\<rparr> None Map.empty)) = 1 \<and>
   get_upload_count ''@bob''
       (snd (mark_video_uploaded True ''t1'' (CHR ''@'' # ''@bob'')
          \<lparr>vd_id = Some ''v1'', vd_caption = None, vd_views = None, vd_likes = None,
            vd_comments = None, vd_shares = None\<rparr> None Map.empty)) = 0"
  by (simp add: mark_video_uploaded_def is_video_uploaded_def get_upload_count_def Let_def)

section \<open>The score\<close>

lemma score_positive_views:
  assumes "counters v = Some (views, likes, comments, shares)" and "0 < views"
  shows "calculate_engagement_score rnd v =
           0.4 * log 10 (real_of_int (views + 1)) +
           0.6 * (real_of_int (likes + comments + shares) / real_of_int views) * 10"
proof -
  have "\<not> (views = 0 \<and> likes = 0 \<and> comments = 0 \<and> shares = 0)" "views \<noteq> 0" "\<not> views + 1 \<le> 0"
    using assms(2) by simp_all
  then show ?thesis
    unfolding calculate_engagement_score_def Let_def assms(1)
    by (simp only: option.case prod.case if_False)
qed

lemma score_nonneg:
  assumes "counters v = Some (views, likes, comments, shares)"
    and "0 \<le> views" and "0 \<le> likes" and "0 \<le> comments" and "0 \<le> shares"
    and "views \<noteq> 0 \<or> likes \<noteq> 0 \<or> comments \<noteq> 0 \<or> shares \<noteq> 0"
  shows "0 \<le> calculate_engagement_score rnd v"
proof (cases "views = 0")
  case True
  with assms show ?thesis by (auto simp: calculate_engagement_score_def)
next
  case False
  with assms have pos: "0 < views" by simp
  then have "0 \<le> log 10 (real_of_int (views + 1))" by simp
  moreover have "0 \<le> real_of_int (likes + comments + shares) / real_of_int views"
    using assms pos by simp
  ultimately show ?thesis
    using assms pos by (auto simp: calculate_engagement_score_def Let_def)
qed

text \<open>
  C4 (as amended). For an item whose four counters convert to non-negative integers, at
  least one of them positive: when the views are positive the score is
  \<open>0.4 * log10(views + 1) + 0.6 * ((likes + comments + shares) / max(views, 1)) * 10\<close>; when
  the views are zero the score is 0, by the guard \<^verbatim>\<open>if views == 0: return 0\<close> that comes
  before the division.
\<close>

theorem normal_regime_score:
  assumes "counters v = Some (views, likes, comments, shares)"
    and "0 \<le> views" and "0 \<le> likes" and "0 \<le> comments" and "0 \<le> shares"
    and "0 < views \<or> 0 < likes \<or> 0 < comments \<or> 0 < shares"
  shows "calculate_engagement_score rnd v =
           (if views = 0 then 0
            else 0.4 * log 10 (real_of_int (views + 1)) +
                 0.6 * (real_of_int (likes + comments + shares) / real_of_int (max views 1)) * 10)"
proof (cases "views = 0")
  case True
  with assms show ?thesis by (auto simp: calculate_engagement_score_def)
next
  case False
  with assms have pos: "0 < views" by simp
  then have m: "max views 1 = views" by simp
  show ?thesis
    unfolding m score_positive_views [OF assms(1) pos] using False by (simp only: if_False)
qed

theorem normal_regime_witness:
  "counters \<lparr>desc = [], createTime = Missing, duration = Missing, playCount = Val 9,
      diggCount = Val 3, commentCount = Val 0, shareCount = Val 0\<rparr> = Some (9, 3, 0, 0) \<and>
   calculate_engagement_score (1 / 2)
     \<lparr>desc = [], createTime = Missing, duration = Missing, playCount = Val 9,
      diggCount = Val 3, commentCount = Val 0, shareCount = Val 0\<rparr> = 12 / 5"
proof -
  have c: "counters \<lparr>desc = [], createTime = Missing, duration = Missing, playCount = Val 9,
      diggCount = Val 3, commentCount = Val 0, shareCount = Val 0\<rparr> = Some (9, 3, 0, 0)"
    by (simp add: counters_def)
  from normal_regime_score [OF c, of "1 / 2"] show ?thesis using c by simp
qed

text \<open>
  The claim as stated fails for an item with no views and five likes: the formula with
  the divisor floored at 1 gives 30, the source returns 0.
\<close>

theorem normal_regime_counterexample:
  "calculate_engagement_score (1 / 2)
     \<lparr>desc = [], createTime = Missing, duration = Missing, playCount = Val 0,
      diggCount = Val 5, commentCount = Val 0, shareCount = Val 0\<rparr> = 0 \<and>
   0.4 * log 10 (real_of_int (0 + 1)) +
     0.6 * (real_of_int (5 + 0 + 0) / real_of_int (max 0 1)) * 10 = (30 :: real)"
  by (simp add: calculate_engagement_score_def counters_def)



text \<open>
  C8. For two items with non-negative counters, each with at least one positive counter:
  if the second has at least as many views and the same engagement rate
  \<open>(likes + comments + shares) / max(views, 1)\<close>, its score is at least the first one's; and
  if both have the same views and the second has at least as many likes, comments and
  shares in total, its score is at least the first one's.
\<close>

theorem score_monotone:
  assumes a: "counters a = Some (va, la, ca, sa)" and b: "counters b = Some (vb, lb, cb, sb)"
    and na: "0 \<le> va" "0 \<le> la" "0 \<le> ca" "0 \<le> sa"
    and nb: "0 \<le> vb" "0 \<le> lb" "0 \<le> cb" "0 \<le> sb"
    and da: "0 < va \<or> 0 < la \<or> 0 < ca \<or> 0 < sa"
    and db: "0 < vb \<or> 0 < lb \<or> 0 < cb \<or> 0 < sb"
  shows "(va \<le> vb \<and>
            real_of_int (la + ca + sa) / real_of_int (max va 1) =
            real_of_int (lb + cb + sb) / real_of_int (max vb 1) \<longrightarrow>
          calculate_engagement_score ra a \<le> calculate_engagement_score rb b) \<and>
         (va = vb \<and> la + ca + sa \<le> lb + cb + sb \<longrightarrow>
          calculate_engagement_score ra a \<le> calculate_engagement_score rb b)"
proof (intro conjI impI)
  assume h: "va \<le> vb \<and>
            real_of_int (la + ca + sa) / real_of_int (max va 1) =
            real_of_int (lb + cb + sb) / real_of_int (max vb 1)"
  show "calculate_engagement_score ra a \<le> calculate_engagement_score rb b"
  proof (cases "va = 0")
    case True
    then have "calculate_engagement_score ra a = 0"
      using a da by (auto simp: calculate_engagement_score_def)
    moreover have "0 \<le> calculate_engagement_score rb b"
      using score_nonneg [OF b nb] db by auto
    ultimately show ?thesis by simp
  next
    case False
    then have pa: "0 < va" using na by simp
    then have pb: "0 < vb" using h by simp
    have l: "log 10 (real_of_int (va + 1)) \<le> log 10 (real_of_int (vb + 1))"
      using pa pb h by simp
    have "max va 1 = va" and "max vb 1 = vb" using pa pb by simp_all
    with h have r: "real_of_int (la + ca + sa) / real_of_int va =
             real_of_int (lb + cb + sb) / real_of_int vb"
      by simp
    have "0.4 * log 10 (real_of_int (va + 1)) \<le> 0.4 * log 10 (real_of_int (vb + 1))"
      using l by simp
    then show ?thesis
      unfolding score_positive_views [OF a pa] score_positive_views [OF b pb] r by simp
  qed
next
  assume h: "va = vb \<and> la + ca + sa \<le> lb + cb + sb"
  show "calculate_engagement_score ra a \<le> calculate_engagement_score rb b"
  proof (cases "va = 0")
    case True
    then show ?thesis using a b h da db by (auto simp: calculate_engagement_score_def)
  next
    case False
    then have pa: "0 < va" using na by simp
    have pb: "0 < vb" using pa h by simp
    have "real_of_int (la + ca + sa) / real_of_int va \<le> real_of_int (lb + cb + sb) / real_of_int va"
      using h pa by (intro divide_right_mono) simp_all
    then have "0.6 * (real_of_int (la + ca + sa) / real_of_int va) * 10 \<le>
               0.6 * (real_of_int (lb + cb + sb) / real_of_int va) * 10"
      by (intro mult_right_mono mult_left_mono) simp_all
    moreover have "vb = va" using h by simp
    ultimately show ?thesis
      unfolding score_positive_views [OF a pa] score_positive_views [OF b pb] by simp
  qed
qed

theorem score_monotone_witness:
  "counters \<lparr>desc = [], createTime = Missing, duration = Missing, playCount = Val 9,
      diggCount = Val 3, commentCount = Val 0, shareCount = Val 0\<rparr> = Some (9, 3, 0, 0) \<and>
   counters \<lparr>desc = [], createTime = Missing, duration = Missing, playCount = Val 99,
      diggCount = Val 30, commentCount = Val 2, shareCount = Val 1\<rparr> = Some (99, 30, 2, 1) \<and>
   (9 :: int) \<le> 99 \<and>
   real_of_int (3 + 0 + 0) / real_of_int (max 9 1) = real_of_int (30 + 2 + 1) / real_of_int (max 99 1) \<and>
   calculate_engagement_score (1 / 2)
     \<lparr>desc = [], createTime = Missing, duration = Missing, playCount = Val 9,
      diggCount = Val 3, commentCount = Val 0, shareCount = Val 0\<rparr> \<le>
   calculate_engagement_score (1 / 2)
     \<lparr>desc = [], createTime = Missing, duration = Missing, playCount = Val 99,
      diggCount = Val 30, commentCount = Val 2, shareCount = Val 1\<rparr>"
proof -
  have a: "counters \<lparr>desc = [], createTime = Missing, duration = Missing, playCount = Val 9,
      diggCount = Val 3, commentCount = Val 0, shareCount = Val 0\<rparr> = Some (9, 3, 0, 0)"
    by (simp add: counters_def)
  have b: "counters \<lparr>desc = [], createTime = Missing, duration = Missing, playCount = Val 99,
      diggCount = Val 30, commentCount = Val 2, shareCount = Val 1\<rparr> = Some (99, 30, 2, 1)"
    by (simp add: counters_def)
  have r: "real_of_int (3 + 0 + 0) / real_of_int (max 9 1) =
           real_of_int (30 + 2 + 1) / real_of_int (max 99 1)"
    by simp
  have "(0::int) \<le> 9" "(0::int) \<le> 3" "(0::int) \<le> 0" "(0::int) \<le> 99" "(0::int) \<le> 30"
    "(0::int) \<le> 2" "(0::int) \<le> 1" "(0::int) < 9 \<or> (0::int) < 3 \<or> (0::int) < 0 \<or> (0::int) < 0"
    "(0::int) < 99 \<or> (0::int) < 30 \<or> (0::int) < 2 \<or> (0::int) < 1"
    by simp_all
  from score_monotone [OF a b this(1,2,3,3) this(4,5,6,7) this(8,9), of "1 / 2" "1 / 2"]
  show ?thesis using a b r by simp
qed

section \<open>The admission floor\<close>

lemma min_bound_le: "min_bound sz \<le> 500000"
  by (cases sz) simp_all

text \<open>
  C5 (as amended). When every view count converts and at least one is positive, a
  channel size is computed and the floor lies between that size's minimum bound (3000,
  8000 or 15000) and 500000.
\<close>

theorem admission_floor_bounds:
  assumes "view_counts_of videos = Some cs" and "\<exists>c \<in> set cs. 0 < c"
  shows "\<exists>sz t. calculate_dynamic_view_threshold flt videos = (Some sz, t) \<and>
           min_bound sz \<le> t \<and> t \<le> 500000"
proof -
  from assms have ne: "videos \<noteq> []" by auto
  from assms(2) have "filter (\<lambda>views. 0 < views) cs \<noteq> []"
    by (auto simp: filter_empty_conv)
  then have s: "sort (filter (\<lambda>views. 0 < views) cs) \<noteq> []"
    by (metis length_sort length_0_conv)
  show ?thesis
    using ne s min_bound_le
    unfolding calculate_dynamic_view_threshold_def assms(1) Let_def
    by (simp add: min_bound_le)
qed

theorem admission_floor_witness:
  "view_counts_of
     [\<lparr>desc = [], createTime = Missing, duration = Missing, playCount = Val 1000,
       diggCount = Missing, commentCount = Missing, shareCount = Missing\<rparr>,
      \<lparr>desc = [], createTime = Missing, duration = Missing, playCount = Val 100000,
       diggCount = Missing, commentCount = Missing, shareCount = Missing\<rparr>,
      \<lparr>desc = [], createTime = Missing, duration = Missing, playCount = Val 3000,
       diggCount = Missing, commentCount = Missing, shareCount = Missing\<rparr>,
      \<lparr>desc = [], createTime = Missing, duration = Missing, playCount = Val 4000,
       diggCount = Missing, commentCount = Missing, shareCount = Missing\<rparr>,
      \<lparr>desc = [], createTime = Missing, duration = Missing, playCount = Val 2000,
       diggCount = Missing, commentCount = Missing, shareCount = Missing\<rparr>] =
     Some [1000, 100000, 3000, 4000, 2000] \<and>
   (\<exists>c \<in> set [1000, 100000, 3000, 4000, 2000 :: int]. 0 < c) \<and>
   calculate_dynamic_view_threshold CONTENT_FILTERS
     [\<lparr>desc = [], createTime = Missing, duration = Missing, playCount = Val 1000,
       diggCount = Missing, commentCount = Missing, shareCount = Missing\<rparr>,
      \<lparr>desc = [], createTime = Missing, duration = Missing, playCount = Val 100000,
       diggCount = Missing, commentCount = Missing, shareCount = Missing\<rparr>,
      \<lparr>desc = [], createTime = Missing, duration = Missing, playCount = Val 3000,
       diggCount = Missing, commentCount = Missing, shareCount = Missing\<rparr>,
      \<lparr>desc = [], createTime = Missing, duration = Missing, playCount = Val 4000,
       diggCount = Missing, commentCount = Missing, shareCount = Missing\<rparr>,
      \<lparr>desc = [], createTime = Missing, duration = Missing, playCount = Val 2000,
       diggCount = Missing, commentCount = Missing, shareCount = Missing\<rparr>] =
     (Some Medium, 8000) \<and>
   min_bound Medium \<le> 8000 \<and> (8000 :: int) \<le> 500000"
proof -
  let ?vs = "[\<lparr>desc = [], createTime = Missing, duration = Missing, playCount = Val 1000,
       diggCount = Missing, commentCount = Missing, shareCount = Missing\<rparr>,
      \<lparr>desc = [], createTime = Missing, duration = Missing, playCount = Val 100000,
       diggCount = Missing, commentCount = Missing, shareCount = Missing\<rparr>,
      \<lparr>desc = [], createTime = Missing, duration = Missing, playCount = Val 3000,
       diggCount = Missing, commentCount = Missing, shareCount = Missing\<rparr>,
      \<lparr>desc = [], createTime = Missing, duration = Missing, playCount = Val 4000,
       diggCount = Missing, commentCount = Missing, shareCount = Missing\<rparr>,
      \<lparr>desc = [], createTime = Missing, duration = Missing, playCount = Val 2000,
       diggCount = Missing, commentCount = Missing, shareCount = Missing\<rparr>]"
  have c: "view_counts_of ?vs = Some [1000, 100000, 3000, 4000, 2000]" by simp
  have p: "\<exists>c \<in> set [1000, 100000, 3000, 4000, 2000 :: int]. 0 < c" by simp
  have e: "calculate_dynamic_view_threshold CONTENT_FILTERS ?vs = (Some Medium, 8000)"
    by (simp add: calculate_dynamic_view_threshold_def Let_def py_int_def)
  from admission_floor_bounds [OF c p, of CONTENT_FILTERS] e
  have "min_bound Medium \<le> 8000 \<and> (8000 :: int) \<le> 500000" by auto
  with c p e show ?thesis by blast
qed

text \<open>
  The claim as stated fails for a non-empty list without a positive count: the zero
  counts are discarded, no channel size is computed, and the floor is the configured
  default of 1000, below every minimum bound.
\<close>

theorem admission_floor_counterexample:
  "calculate_dynamic_view_threshold CONTENT_FILTERS
     [\<lparr>desc = [], createTime = Missing, duration = Missing, playCount = Val 0,
      diggCount = Missing, commentCount = Missing, shareCount = Missing\<rparr>] = (None, 1000) \<and>
   \<not> min_bound Small \<le> 1000 \<and> \<not> min_bound Medium \<le> 1000 \<and> \<not> min_bound Large \<le> 1000"
  by (simp add: calculate_dynamic_view_threshold_def CONTENT_FILTERS_def default_min_views_def)

section \<open>The selection\<close>













section \<open>The quota: check, commit and the batch\<close>

lemma cost_insert: "cost_per_op ''videos.insert'' = 1600"
  by (simp add: cost_per_op_def QUOTA_COSTS_def)

lemma reserve_500: "reserve_quota = 500"
  by (simp add: reserve_quota_def daily_quota_limit_def)

lemma py_int_pos_iff: "0 < py_int x \<longleftrightarrow> 1 \<le> x"
  by (auto simp: py_int_def)


lemma check_insert_iff:
  "check_quota_available t ''videos.insert'' n q \<longleftrightarrow>
     (1600 * n \<le> 9500 - used_quota t q \<or> 1600 \<le> 9500 - used_quota t q)"
proof -
  have "real_of_int (1600 * n) > real_of_int (10000 - used_quota t q) - 500 \<longleftrightarrow>
        \<not> 1600 * n \<le> 9500 - used_quota t q"
    by linarith
  moreover have "0 < py_int ((real_of_int (10000 - used_quota t q) - 500) / 1600) \<longleftrightarrow>
        1600 \<le> 9500 - used_quota t q"
    unfolding py_int_pos_iff by (simp add: field_simps) 
  ultimately show ?thesis
    unfolding check_quota_available_def Let_def cost_insert reserve_500 daily_quota_limit_def
    by (simp del: of_int_mult of_int_diff)
qed

lemma track_entry:
  assumes "has_operations t q"
  shows "\<exists>e. snd (track_api_usage True t ts operation n q) t = Some e \<and>
             used e = used_quota t q + cost_per_op operation * n \<and>
             remaining e = max 0 (daily_quota_limit - used e) \<and>
             operations e \<noteq> None"
  using assms
  by (auto simp: track_api_usage_def used_quota_def save_quota_usage_def has_operations_def
           Let_def split: option.splits)





text \<open>
  C3 (as amended). After a successful check for \<open>n\<close> uploads, tracking \<open>n\<close> uploads
  (with a writable quota file whose entry of today, if any, has its operations) leaves
  today's \<open>used\<close> at the previous value plus \<open>n\<close> times the upload cost and
  \<open>remaining\<close> at \<open>max(0, limit - used)\<close>; that is \<open>limit - used\<close> whenever the whole
  request fitted into the effective remaining quota.
\<close>

theorem check_then_commit:
  assumes chk: "check_quota_available day ''videos.insert'' n q"
    and ops: "has_operations day q"
  shows "\<exists>e. snd (track_api_usage True day ts ''videos.insert'' n q) day = Some e \<and>
           used e = used_quota day q + n * cost_per_op ''videos.insert'' \<and>
           remaining e = max 0 (daily_quota_limit - used e) \<and>
           (real_of_int (n * cost_per_op ''videos.insert'') \<le>
              real_of_int (daily_quota_limit - used_quota day q) - reserve_quota \<longrightarrow>
            remaining e = daily_quota_limit - used e)"
proof -
  from track_entry [OF ops, of ts "''videos.insert''" n] obtain e where
    e: "snd (track_api_usage True day ts ''videos.insert'' n q) day = Some e"
      "used e = used_quota day q + cost_per_op ''videos.insert'' * n"
      "remaining e = max 0 (daily_quota_limit - used e)"
    by blast
  have "remaining e = daily_quota_limit - used e"
    if "real_of_int (n * cost_per_op ''videos.insert'') \<le>
          real_of_int (daily_quota_limit - used_quota day q) - reserve_quota"
  proof -
    from that have "n * 1600 \<le> 9500 - used_quota day q"
      unfolding cost_insert reserve_500 daily_quota_limit_def by linarith
    then show ?thesis unfolding e(3) e(2) cost_insert daily_quota_limit_def by simp
  qed
  with e show ?thesis by (simp add: mult.commute)
qed

theorem check_then_commit_witness:
  "check_quota_available ''2024-05-01'' ''videos.insert'' 2 Map.empty \<and>
   has_operations ''2024-05-01'' Map.empty \<and>
   map_option used
     (snd (track_api_usage True ''2024-05-01'' ''12:00'' ''videos.insert'' 2 Map.empty)
        ''2024-05-01'') = Some 3200 \<and>
   map_option remaining
     (snd (track_api_usage True ''2024-05-01'' ''12:00'' ''videos.insert'' 2 Map.empty)
        ''2024-05-01'') = Some 6800"
proof -
  have c: "check_quota_available ''2024-05-01'' ''videos.insert'' 2 Map.empty"
    by (simp add: check_insert_iff used_quota_def)
  have h: "has_operations ''2024-05-01'' Map.empty" by (simp add: has_operations_def)
  from check_then_commit [OF c h, of "''12:00''"] show ?thesis
    using c h
    by (auto simp: used_quota_def cost_insert daily_quota_limit_def reserve_500)
qed

text \<open>
  The claim as stated fails on a fresh day for 7 uploads: the check succeeds because one
  upload fits, the commit brings \<open>used\<close> to 11200, and \<open>remaining\<close> is 0, not
  \<open>10000 - 11200\<close>.
\<close>

theorem check_then_commit_counterexample:
  "check_quota_available ''2024-05-01'' ''videos.insert'' 7 Map.empty \<and>
   used_quota ''2024-05-01'' Map.empty = 0 \<and>
   map_option used
     (snd (track_api_usage True ''2024-05-01'' ''12:00'' ''videos.insert'' 7 Map.empty)
        ''2024-05-01'') = Some 11200 \<and>
   map_option remaining
     (snd (track_api_usage True ''2024-05-01'' ''12:00'' ''videos.insert'' 7 Map.empty)
        ''2024-05-01'') = Some 0 \<and>
   daily_quota_limit - 11200 \<noteq> 0"
  by (simp add: check_insert_iff used_quota_def track_api_usage_def save_quota_usage_def
        cost_insert daily_quota_limit_def Let_def)

text \<open>
  In \<^verbatim>\<open>_upload_immediately\<close> the branch that cuts the batch to an affordable prefix
  needs a failed check and a positive number of possible uploads, read from the same
  quota file: the two exclude each other. If it were entered, its marking loop would read
  the cut lists beyond their end.
\<close>

lemma prefix_branch_not_entered:
  assumes "\<not> check_quota_available day ''videos.insert'' n q"
  shows "py_int ((real_of_int (daily_quota_limit - used_quota day q) - reserve_quota) /
                 real_of_int (cost_per_op ''videos.insert'')) \<le> 0"
proof -
  from assms have "\<not> 1600 \<le> 9500 - used_quota day q" by (simp add: check_insert_iff)
  then have "\<not> 1 \<le> (real_of_int (daily_quota_limit - used_quota day q) - reserve_quota) /
                 real_of_int (cost_per_op ''videos.insert'')"
    by (simp add: cost_insert reserve_500 daily_quota_limit_def)
  then show ?thesis using py_int_pos_iff linorder_not_less by blast
qed

lemma mark_remaining_out_of_range:
  assumes "0 < p" and "nat p < length video_data_list"
  shows "mark_remaining (py_take p video_files) (py_take p video_data_list)
           [nat p ..< length video_data_list] [] = Inl IndexError"
proof -
  from assms(2) have "[nat p ..< length video_data_list] =
      nat p # [Suc (nat p) ..< length video_data_list]"
    by (simp add: upt_conv_Cons)
  moreover have "length (py_take p video_data_list) = nat p"
    using assms by (simp add: py_take_def)
  ultimately show ?thesis by simp
qed




text \<open>
  C9. With the limit 10000, 8500 units used today, the upload cost 1600 and the reserve
  500: the effective remaining quota is 1000, no upload is affordable, and a batch of
  three videos ends with \<open>successful\<close> empty, all three in \<open>failed\<close> ("Quota
  exceeded"), the quota file unchanged whatever the service would have answered, and no
  ledger record written from the result.
\<close>

theorem quota_exhausted_batch:
  "reserve_quota = 500 \<and>
   real_of_int (daily_quota_limit - used_quota (today ev) (q(today ev \<mapsto> e\<lparr>used := 8500\<rparr>))) -
     reserve_quota = 1000 \<and>
   py_int (1000 / real_of_int (cost_per_op ''videos.insert'')) = 0 \<and>
   upload_immediately ev (q(today ev \<mapsto> e\<lparr>used := 8500\<rparr>)) [f1, f2, f3] [d1, d2, d3] =
     Inr (\<lparr>successful = [],
           failed = [\<lparr>f_file = f1, f_title = title_of d1 0, f_error = ''Quota exceeded''\<rparr>,
                     \<lparr>f_file = f2, f_title = title_of d2 1, f_error = ''Quota exceeded''\<rparr>,
                     \<lparr>f_file = f3, f_title = title_of d3 2, f_error = ''Quota exceeded''\<rparr>]\<rparr>,
          q(today ev \<mapsto> e\<lparr>used := 8500\<rparr>)) \<and>
   record_upload_results record_uploaded_video
     \<lparr>successful = [],
      failed = [\<lparr>f_file = f1, f_title = title_of d1 0, f_error = ''Quota exceeded''\<rparr>,
                \<lparr>f_file = f2, f_title = title_of d2 1, f_error = ''Quota exceeded''\<rparr>,
                \<lparr>f_file = f3, f_title = title_of d3 2, f_error = ''Quota exceeded''\<rparr>]\<rparr>
     ledger = ledger"
proof -
  let ?q = "q(today ev \<mapsto> e\<lparr>used := 8500\<rparr>)"
  have u: "used_quota (today ev) ?q = 8500" by (simp add: used_quota_def)
  have p: "py_int (1000 / real_of_int (cost_per_op ''videos.insert'')) = 0"
    by (simp add: cost_insert py_int_def)
  have c: "\<not> check_quota_available (today ev) ''videos.insert'' (int (length [f1, f2, f3])) ?q"
    by (simp add: check_insert_iff u)
  have r: "real_of_int (daily_quota_limit - used_quota (today ev) ?q) - reserve_quota = 1000"
    by (simp add: u daily_quota_limit_def reserve_500)
  have "upload_immediately ev ?q [f1, f2, f3] [d1, d2, d3] =
     Inr (\<lparr>successful = [],
           failed = [\<lparr>f_file = f1, f_title = title_of d1 0, f_error = ''Quota exceeded''\<rparr>,
                     \<lparr>f_file = f2, f_title = title_of d2 1, f_error = ''Quota exceeded''\<rparr>,
                     \<lparr>f_file = f3, f_title = title_of d3 2, f_error = ''Quota exceeded''\<rparr>]\<rparr>, ?q)"
    unfolding upload_immediately_def Let_def r using c p by (simp add: numeral_2_eq_2)
  then show ?thesis using p r
    by (simp add: reserve_500 record_upload_results_def)
qed

end
